theory Spec2Isabelle
  imports Main "HOL-Library.Sublist"
begin

section \<open>The probe driver as nrf5x.py sees it\<close>

text \<open>
  nrf5x.py drives a debug probe through the pynrfjprog \<open>API\<close> object. The driver is not
  part of the program, so it is a parameter of the model: a function that, given the calls
  made so far and the call being made, either returns a value or raises. The model records
  every call in a trace, and the properties below are statements about that trace.

  An \<open>API.API(family)\<close> object carries nothing but its family, and the program never holds
  two of them at once; the model identifies the object with its family, and lets the call
  \<open>Api_open\<close> stand for \<open>API.API(family)\<close> followed by \<open>api.open()\<close>.
\<close>

datatype DeviceFamily = NRF51 | NRF52

datatype NrfjprogdllErr = WRONG_FAMILY_FOR_DEVICE | OTHER_ERR_CODE int

datatype py_exception =
    APIError NrfjprogdllErr
  | AssertionError string
  | TypeError
  | AttributeError
  | OtherException string

datatype api_method =
    Api_open
  | Api_close
  | Api_connect_to_emu_with_snr int "int option"
  | Api_connect_to_emu_without_snr "int option"
  | Api_read_device_version
  | Api_connect_to_device
  | Api_disconnect_from_emu
  | Api_read int nat
  | Api_write int "int list" bool
  | Api_write_u32 int int bool
  | Api_erase_all
  | Api_recover
  | Api_debug_reset
  | Api_pin_reset
  | Api_sys_reset
  | Api_go

datatype api_call = Call DeviceFamily api_method

datatype response = Returns "int list" | Raises py_exception

type_synonym trace = "api_call list"

type_synonym driver = "trace \<Rightarrow> api_call \<Rightarrow> response"

text \<open>
  A computation takes the trace so far and gives back either the exception that left it
  or its value, with the trace extended by the calls it made.
\<close>

type_synonym 'a io = "trace \<Rightarrow> (py_exception + 'a) \<times> trace"

definition return_io :: "'a \<Rightarrow> 'a io" where
  "return_io v t = (Inr v, t)"

definition raise_io :: "py_exception \<Rightarrow> 'a io" where
  "raise_io e t = (Inl e, t)"

definition bind_io :: "'a io \<Rightarrow> ('a \<Rightarrow> 'b io) \<Rightarrow> 'b io" where
  "bind_io m f t = (case m t of (Inl e, t') \<Rightarrow> (Inl e, t') | (Inr v, t') \<Rightarrow> f v t')"

text \<open>\<open>try: m except ...: h e\<close>, where \<open>h\<close> re-raises what its clause does not catch.\<close>

definition try_except :: "'a io \<Rightarrow> (py_exception \<Rightarrow> 'a io) \<Rightarrow> 'a io" where
  "try_except m h t = (case m t of (Inl e, t') \<Rightarrow> h e t' | (Inr v, t') \<Rightarrow> (Inr v, t'))"

definition invoke :: "driver \<Rightarrow> DeviceFamily \<Rightarrow> api_method \<Rightarrow> (int list) io" where
  "invoke drv handle m t =
     (case drv t (Call handle m) of
        Raises e \<Rightarrow> (Inl e, t @ [Call handle m])
      | Returns v \<Rightarrow> (Inr v, t @ [Call handle m]))"

text \<open>An \<open>assert\<close> statement, of an interpreter that runs them (no \<open>-O\<close>).\<close>

definition py_assert :: "bool \<Rightarrow> string \<Rightarrow> unit io" where
  "py_assert c msg = (if c then return_io () else raise_io (AssertionError msg))"

text \<open>Python's truth value of an optional integer: \<open>None\<close> and \<open>0\<close> are false.\<close>

definition truthy :: "int option \<Rightarrow> bool" where
  "truthy v = (case v of None \<Rightarrow> False | Some n \<Rightarrow> n \<noteq> 0)"

section \<open>The command-line arguments and the NRF5x object\<close>

text \<open>
  \<open>args\<close> is the argparse namespace. The three attributes that \<open>__init__\<close> reads inside
  \<open>try\<close>/\<open>except\<close> are optional: \<open>None\<close> stands for an attribute that is missing or is
  \<open>None\<close>; they are \<open>arg_clockspeed\<close>, \<open>arg_quiet\<close> and \<open>arg_snr\<close> here, apart from the
  attributes of the NRF5x object that copy them, and \<open>args.verify\<close> is \<open>verify_flag\<close>, apart
  from the command \<open>verify\<close>. The image file is parsed by \<open>Hex.Hex\<close>, which is not part of
  this program: the list of segments it yields is passed to the commands that iterate over
  it.
\<close>

record args =
  arg_clockspeed :: "int option"
  arg_quiet :: "bool option"
  arg_snr :: "int option"
  addr :: int
  val :: int
  flash :: bool
  eraseall :: bool
  sectorserase :: bool
  sectorsanduicrerase :: bool
  verify_flag :: bool
  debugreset :: bool
  pinreset :: bool
  systemreset :: bool

record segment =
  address :: int
  data :: "int list"

text \<open>\<open>api\<close> is \<open>None\<close> while the attribute \<open>self.api\<close> has not been assigned.\<close>

record NRF5x =
  clockspeed :: "int option"
  quiet :: "bool option"
  snr :: "int option"
  api :: "DeviceFamily option"

text \<open>\<open>NRF5x._connect_to_emu\<close> (lines 94 to 102).\<close>

definition NRF5x_connect_to_emu :: "driver \<Rightarrow> NRF5x \<Rightarrow> DeviceFamily \<Rightarrow> (int list) io" where
  "NRF5x_connect_to_emu drv self handle =
     (if truthy (snr self) \<and> truthy (clockspeed self) then
        invoke drv handle (Api_connect_to_emu_with_snr (the (snr self)) (clockspeed self))
      else if truthy (snr self) then
        invoke drv handle (Api_connect_to_emu_with_snr (the (snr self)) None)
      else if truthy (clockspeed self) then
        invoke drv handle (Api_connect_to_emu_without_snr (clockspeed self))
      else
        invoke drv handle (Api_connect_to_emu_without_snr None))"

text \<open>
  \<open>NRF5x._setup\<close> (lines 68 to 92). It is declared \<open>def _setup(self)\<close>: a call that
  passes further positional arguments raises \<open>TypeError\<close> before the body runs, and
  \<open>extra\<close> is the list of those arguments. The \<open>except API.APIError\<close> clause catches
  no other exception.
\<close>

definition NRF5x_setup :: "driver \<Rightarrow> NRF5x \<Rightarrow> args list \<Rightarrow> DeviceFamily io" where
  "NRF5x_setup drv self extra =
     (if extra \<noteq> [] then raise_io TypeError
      else
        bind_io (invoke drv NRF51 Api_open) (\<lambda>_.
        bind_io (NRF5x_connect_to_emu drv self NRF51) (\<lambda>_.
        bind_io
          (try_except
            (bind_io (invoke drv NRF51 Api_read_device_version) (\<lambda>_. return_io NRF51))
            (\<lambda>e. case e of
               APIError err_code \<Rightarrow>
                 if err_code = WRONG_FAMILY_FOR_DEVICE then
                   bind_io (invoke drv NRF51 Api_close) (\<lambda>_.
                   bind_io (invoke drv NRF52 Api_open) (\<lambda>_.
                   bind_io (NRF5x_connect_to_emu drv self NRF52) (\<lambda>_.
                   return_io NRF52)))
                 else raise_io e
             | _ \<Rightarrow> raise_io e))
          (\<lambda>handle.
        bind_io (invoke drv handle Api_connect_to_device) (\<lambda>_.
        return_io handle)))))"

text \<open>\<open>NRF5x.__init__\<close> (lines 39 to 66); the print options it sets are not modelled.\<close>

definition NRF5x_init :: "driver \<Rightarrow> args \<Rightarrow> bool \<Rightarrow> NRF5x io" where
  "NRF5x_init drv args do_not_initialize_api =
     (let self = \<lparr>clockspeed = arg_clockspeed args, quiet = arg_quiet args,
                  snr = arg_snr args, api = None\<rparr>
      in if do_not_initialize_api then return_io self
         else bind_io (NRF5x_setup drv self [])
                (\<lambda>handle. return_io (self\<lparr>api := Some handle\<rparr>)))"

text \<open>Reading \<open>nrf.api\<close> and calling a method of it.\<close>

definition nrf_api :: "driver \<Rightarrow> NRF5x \<Rightarrow> api_method \<Rightarrow> (int list) io" where
  "nrf_api drv nrf m =
     (case api nrf of None \<Rightarrow> raise_io AttributeError | Some handle \<Rightarrow> invoke drv handle m)"

text \<open>\<open>NRF5x.log\<close> (lines 104 to 108) prints or not; it makes no driver call.\<close>

definition NRF5x_log :: "NRF5x \<Rightarrow> string \<Rightarrow> unit io" where
  "NRF5x_log self msg = return_io ()"

text \<open>\<open>NRF5x.cleanup\<close> (lines 110 to 112).\<close>

definition NRF5x_cleanup :: "driver \<Rightarrow> NRF5x \<Rightarrow> unit io" where
  "NRF5x_cleanup drv self =
     bind_io (nrf_api drv self Api_disconnect_from_emu) (\<lambda>_.
     bind_io (nrf_api drv self Api_close) (\<lambda>_.
     return_io ()))"

section \<open>The commands\<close>

text \<open>A \<open>for\<close> loop over a list: the first exception leaves the loop.\<close>

fun for_each :: "('a \<Rightarrow> unit io) \<Rightarrow> 'a list \<Rightarrow> unit io" where
  "for_each body [] t = (Inr (), t)"
| "for_each body (x # xs) t =
     (case body x t of (Inl e, t') \<Rightarrow> (Inl e, t') | (Inr _, t') \<Rightarrow> for_each body xs t')"

text \<open>\<open>_reset\<close> (lines 319 to 328).\<close>

definition underscore_reset :: "driver \<Rightarrow> NRF5x \<Rightarrow> args \<Rightarrow> bool \<Rightarrow> unit io" where
  "underscore_reset drv nrf args default_sys_reset =
     (if debugreset args then
        bind_io (nrf_api drv nrf Api_debug_reset) (\<lambda>_.
        bind_io (nrf_api drv nrf Api_go) (\<lambda>_. return_io ()))
      else if pinreset args then
        bind_io (nrf_api drv nrf Api_pin_reset) (\<lambda>_.
        bind_io (nrf_api drv nrf Api_go) (\<lambda>_. return_io ()))
      else if systemreset args \<or> default_sys_reset then
        bind_io (nrf_api drv nrf Api_sys_reset) (\<lambda>_.
        bind_io (nrf_api drv nrf Api_go) (\<lambda>_. return_io ()))
      else return_io ())"

text \<open>\<open>memwr\<close> (lines 169 to 179).\<close>

definition memwr :: "driver \<Rightarrow> args \<Rightarrow> unit io" where
  "memwr drv args =
     bind_io (NRF5x_init drv args False) (\<lambda>nrf.
     bind_io (NRF5x_log nrf ''Writing the device's memory.'') (\<lambda>_.
     bind_io
       (if flash args then nrf_api drv nrf (Api_write_u32 (addr args) (val args) True)
        else
          bind_io (py_assert (addr args \<ge> 0x80000)
                     ''The --flash option needs to be specified when writing FLASH.'') (\<lambda>_.
          nrf_api drv nrf (Api_write_u32 (addr args) (val args) False)))
       (\<lambda>_.
     NRF5x_cleanup drv nrf)))"

text \<open>The body of the loop of \<open>program\<close> (lines 206 to 211).\<close>

definition program_segment :: "driver \<Rightarrow> NRF5x \<Rightarrow> args \<Rightarrow> segment \<Rightarrow> unit io" where
  "program_segment drv nrf args seg =
     bind_io (nrf_api drv nrf (Api_read (address seg) (length (data seg)))) (\<lambda>read_data.
     bind_io (py_assert (read_data = replicate (length read_data) 0xFF)
                ''FLASH being written to must be erased.'') (\<lambda>_.
     bind_io (nrf_api drv nrf (Api_write (address seg) (data seg) True)) (\<lambda>_.
     if verify_flag args then
       bind_io (nrf_api drv nrf (Api_read (address seg) (length (data seg)))) (\<lambda>read_data.
       py_assert (read_data = data seg)
         ''Verify failed. Data readback from memory does not match data written.'')
     else return_io ())))"

text \<open>
  \<open>program\<close> up to its loop (lines 190 to 204): the session, and the erase the options
  ask for. It yields the NRF5x object the rest of the command works on.
\<close>

definition program_prepare :: "driver \<Rightarrow> args \<Rightarrow> NRF5x io" where
  "program_prepare drv args =
     bind_io (NRF5x_init drv args False) (\<lambda>nrf.
     bind_io (NRF5x_log nrf ''Programming the device.'') (\<lambda>_.
     bind_io
       (if eraseall args then bind_io (nrf_api drv nrf Api_erase_all) (\<lambda>_. return_io ())
        else if sectorserase args then py_assert False ''Not implemented in nrf5x.py yet.''
        else if sectorsanduicrerase args then
          py_assert False ''Not implemented in nrf5x.py yet.''
        else return_io ())
       (\<lambda>_.
     bind_io (NRF5x_log nrf ''Parsing hex file into segments.'') (\<lambda>_.
     bind_io (NRF5x_log nrf ''Writing %s to device.'') (\<lambda>_.
     return_io nrf)))))"

text \<open>\<open>program\<close> (lines 189 to 218); \<open>test_program\<close> is what \<open>Hex.Hex\<close> yields.\<close>

definition program :: "driver \<Rightarrow> args \<Rightarrow> segment list \<Rightarrow> unit io" where
  "program drv args test_program =
     bind_io (program_prepare drv args) (\<lambda>nrf.
     bind_io (for_each (program_segment drv nrf args) test_program) (\<lambda>_.
     bind_io (if verify_flag args then NRF5x_log nrf ''Programming verified.''
              else return_io ()) (\<lambda>_.
     bind_io (underscore_reset drv nrf args False) (\<lambda>_.
     NRF5x_cleanup drv nrf))))"

text \<open>The body of the loop of \<open>verify\<close> (lines 286 to 287).\<close>

definition verify_segment :: "driver \<Rightarrow> NRF5x \<Rightarrow> segment \<Rightarrow> unit io" where
  "verify_segment drv nrf seg =
     bind_io (nrf_api drv nrf (Api_read (address seg) (length (data seg)))) (\<lambda>read_data.
     py_assert (read_data = data seg)
       ''Verify failed. Data readback from memory does not match data written.'')"

text \<open>\<open>verify\<close> (lines 278 to 291).\<close>

definition verify :: "driver \<Rightarrow> args \<Rightarrow> segment list \<Rightarrow> unit io" where
  "verify drv args test_program =
     bind_io (NRF5x_init drv args False) (\<lambda>nrf.
     bind_io (NRF5x_log nrf ''Verifying that the device's memory contains the correct data.'')
       (\<lambda>_.
     bind_io (for_each (verify_segment drv nrf) test_program) (\<lambda>_.
     bind_io (NRF5x_log nrf ''Programming verified.'') (\<lambda>_.
     NRF5x_cleanup drv nrf))))"

text \<open>\<open>reset\<close> (lines 262 to 268).\<close>

definition reset :: "driver \<Rightarrow> args \<Rightarrow> unit io" where
  "reset drv args =
     bind_io (NRF5x_init drv args False) (\<lambda>nrf.
     bind_io (NRF5x_log nrf ''Resetting the device.'') (\<lambda>_.
     bind_io (underscore_reset drv nrf args True) (\<lambda>_.
     NRF5x_cleanup drv nrf)))"

text \<open>
  \<open>recover\<close> (lines 246 to 260). The \<open>try\<close> block calls \<open>nrf._setup(args)\<close>, with one
  positional argument; \<open>except Exception\<close> catches every exception of the model.
\<close>

definition recover :: "driver \<Rightarrow> args \<Rightarrow> unit io" where
  "recover drv args =
     bind_io (NRF5x_init drv args True) (\<lambda>nrf.
     bind_io (NRF5x_log nrf (''Erasing all user FLASH and RAM and disabling any readback '' @
                ''protection mechanisms that are enabled.'')) (\<lambda>_.
     try_except
       (bind_io (NRF5x_setup drv nrf [args]) (\<lambda>_.
        bind_io (nrf_api drv nrf Api_recover) (\<lambda>_.
        NRF5x_cleanup drv nrf)))
       (\<lambda>_.
        bind_io (invoke drv NRF52 Api_open) (\<lambda>_.
        bind_io (NRF5x_connect_to_emu drv nrf NRF52) (\<lambda>_.
        bind_io (invoke drv NRF52 Api_recover) (\<lambda>_.
        bind_io (invoke drv NRF52 Api_disconnect_from_emu) (\<lambda>_.
        bind_io (invoke drv NRF52 Api_close) (\<lambda>_.
        return_io ()))))))))"

section \<open>Vocabulary of the properties\<close>

text \<open>The probe-connect call that lines 95 to 102 select, apart from the object it is made on.\<close>

definition emu_call :: "NRF5x \<Rightarrow> api_method" where
  "emu_call self =
     (if truthy (snr self) \<and> truthy (clockspeed self) then
        Api_connect_to_emu_with_snr (the (snr self)) (clockspeed self)
      else if truthy (snr self) then Api_connect_to_emu_with_snr (the (snr self)) None
      else if truthy (clockspeed self) then Api_connect_to_emu_without_snr (clockspeed self)
      else Api_connect_to_emu_without_snr None)"

text \<open>
  The specification's rule for the probe-connect call: one call shape for each subset of
  serial number and clock speed that was supplied.
\<close>

fun spec_connect_call :: "int option \<Rightarrow> int option \<Rightarrow> api_method" where
  "spec_connect_call (Some s) (Some c) = Api_connect_to_emu_with_snr s (Some c)"
| "spec_connect_call (Some s) None = Api_connect_to_emu_with_snr s None"
| "spec_connect_call None (Some c) = Api_connect_to_emu_without_snr (Some c)"
| "spec_connect_call None None = Api_connect_to_emu_without_snr None"

text \<open>A parameter that Python takes for false counts as not supplied.\<close>

definition supplied :: "int option \<Rightarrow> int option" where
  "supplied v = (if truthy v then v else None)"

text \<open>The driver returns from each call of a list of calls made one after the other.\<close>

fun accepts :: "driver \<Rightarrow> trace \<Rightarrow> api_call list \<Rightarrow> bool" where
  "accepts drv t [] = True"
| "accepts drv t (c # cs) =
     ((case drv t c of Returns _ \<Rightarrow> True | Raises _ \<Rightarrow> False) \<and> accepts drv (t @ [c]) cs)"

text \<open>The calls of a trace that open, disconnect or close a session.\<close>

fun is_session_call :: "api_call \<Rightarrow> bool" where
  "is_session_call (Call _ Api_open) = True"
| "is_session_call (Call _ Api_disconnect_from_emu) = True"
| "is_session_call (Call _ Api_close) = True"
| "is_session_call _ = False"

definition session_calls :: "trace \<Rightarrow> trace" where
  "session_calls t = filter is_session_call t"

text \<open>The calls of a trace that write to the target.\<close>

fun is_write_call :: "api_call \<Rightarrow> bool" where
  "is_write_call (Call _ (Api_write _ _ _)) = True"
| "is_write_call (Call _ (Api_write_u32 _ _ _)) = True"
| "is_write_call _ = False"

definition write_calls :: "trace \<Rightarrow> trace" where
  "write_calls t = filter is_write_call t"

text \<open>
  A driver stub for concrete runs: it answers the calls in order from a list of responses,
  and returns the empty list once the responses are used up.
\<close>

definition scripted :: "response list \<Rightarrow> driver" where
  "scripted rs t c = (case drop (length t) rs of [] \<Rightarrow> Returns [] | r # _ \<Rightarrow> r)"

definition no_args :: args where
  "no_args = \<lparr>arg_clockspeed = None, arg_quiet = None, arg_snr = None, addr = 0, val = 0,
     flash = False, eraseall = False, sectorserase = False, sectorsanduicrerase = False,
     verify_flag = False, debugreset = False, pinreset = False, systemreset = False\<rparr>"

text \<open>
  The calls of \<open>_setup\<close> up to the version query, and the calls that follow a version
  query that failed with the wrong-family error.
\<close>

definition setup_head :: "NRF5x \<Rightarrow> trace" where
  "setup_head self =
     [Call NRF51 Api_open, Call NRF51 (emu_call self), Call NRF51 Api_read_device_version]"

definition setup_retry :: "NRF5x \<Rightarrow> trace" where
  "setup_retry self =
     [Call NRF51 Api_close, Call NRF52 Api_open, Call NRF52 (emu_call self),
      Call NRF52 Api_connect_to_device]"

text \<open>
  The retry of \<open>_setup\<close> (lines 83 to 87) on its own.
\<close>

definition setup_retry_io :: "driver \<Rightarrow> NRF5x \<Rightarrow> DeviceFamily io" where
  "setup_retry_io drv self =
     bind_io (invoke drv NRF51 Api_close) (\<lambda>_.
     bind_io (invoke drv NRF52 Api_open) (\<lambda>_.
     bind_io (NRF5x_connect_to_emu drv self NRF52) (\<lambda>_.
     return_io NRF52)))"

text \<open>
  The session calls of a run of \<open>_setup\<close> that returns a session of the given family, and
  those of a whole command that went on to release that session.
\<close>

fun opened :: "DeviceFamily \<Rightarrow> trace" where
  "opened NRF51 = [Call NRF51 Api_open]"
| "opened NRF52 = [Call NRF51 Api_open, Call NRF51 Api_close, Call NRF52 Api_open]"

definition released :: "DeviceFamily \<Rightarrow> trace" where
  "released f = opened f @ [Call f Api_disconnect_from_emu, Call f Api_close]"

text \<open>
  The session calls of a recovery that opens Family-B directly.
\<close>

definition direct52 :: trace where
  "direct52 = [Call NRF52 Api_open, Call NRF52 Api_disconnect_from_emu, Call NRF52 Api_close]"

text \<open>
  The session calls of a run are an initial part of a pattern, and the whole of it
  when the run returns.
\<close>

definition runs_within :: "trace \<Rightarrow> (py_exception + 'a) \<times> trace \<Rightarrow> bool" where
  "runs_within pat r =
     (prefix (session_calls (snd r)) pat \<and> (isl (fst r) \<or> session_calls (snd r) = pat))"

text \<open>
  The reset call of \<open>_reset\<close> when system reset is the default (lines 320 to 327).
\<close>

definition reset_primitive :: "args \<Rightarrow> api_method" where
  "reset_primitive a =
     (if debugreset a then Api_debug_reset
      else if pinreset a then Api_pin_reset
      else Api_sys_reset)"

text \<open>
  The two calls of \<open>cleanup\<close>.
\<close>

definition release_calls :: "DeviceFamily \<Rightarrow> api_call set" where
  "release_calls f = {Call f Api_disconnect_from_emu, Call f Api_close}"

text \<open>
  The read and the write that \<open>program\<close> and \<open>verify\<close> make for a segment.
\<close>

definition read_call :: "DeviceFamily \<Rightarrow> segment \<Rightarrow> api_call" where
  "read_call f seg = Call f (Api_read (address seg) (length (data seg)))"

definition write_call :: "DeviceFamily \<Rightarrow> segment \<Rightarrow> api_call" where
  "write_call f seg = Call f (Api_write (address seg) (data seg) True)"

text \<open>
  The messages of the assertions.
\<close>

definition not_erased_msg :: string where
  "not_erased_msg = ''FLASH being written to must be erased.''"

definition verify_failed_msg :: string where
  "verify_failed_msg = ''Verify failed. Data readback from memory does not match data written.''"

definition needs_flash_msg :: string where
  "needs_flash_msg = ''The --flash option needs to be specified when writing FLASH.''"

text \<open>
  Concrete objects, arguments and segments for the runs below.
\<close>

definition plain_nrf :: NRF5x where
  "plain_nrf = \<lparr>clockspeed = None, quiet = None, snr = None, api = None\<rparr>"

definition nrf51 :: NRF5x where
  "nrf51 = \<lparr>clockspeed = None, quiet = None, snr = None, api = Some NRF51\<rparr>"

definition seg1 :: segment where
  "seg1 = \<lparr>address = 0, data = [1, 2]\<rparr>"

definition seg2 :: segment where
  "seg2 = \<lparr>address = 4096, data = [3, 4]\<rparr>"

definition session51 :: trace where
  "session51 =
     [Call NRF51 Api_open, Call NRF51 (Api_connect_to_emu_without_snr None),
      Call NRF51 Api_read_device_version, Call NRF51 Api_connect_to_device]"

section \<open>Laws of the computations\<close>

lemma bind_return [simp]: "bind_io (return_io v) f = f v"
  by (rule ext) (simp add: bind_io_def return_io_def)

lemma bind_raise [simp]: "bind_io (raise_io e) f = raise_io e"
  by (rule ext) (simp add: bind_io_def raise_io_def)

lemma bind_assoc: "bind_io (bind_io m f) g = bind_io m (\<lambda>x. bind_io (f x) g)"
  by (rule ext) (simp add: bind_io_def split: prod.splits sum.splits)

lemma bind_Inr: "m t = (Inr v, t') \<Longrightarrow> bind_io m f t = f v t'"
  by (simp add: bind_io_def)

lemma bind_Inl: "m t = (Inl e, t') \<Longrightarrow> bind_io m f t = (Inl e, t')"
  by (simp add: bind_io_def)

lemma invoke_Returns:
  "drv t (Call a m) = Returns v \<Longrightarrow> invoke drv a m t = (Inr v, t @ [Call a m])"
  by (simp add: invoke_def)

lemma invoke_Raises:
  "drv t (Call a m) = Raises e \<Longrightarrow> invoke drv a m t = (Inl e, t @ [Call a m])"
  by (simp add: invoke_def)

lemma snd_invoke [simp]: "snd (invoke drv a m t) = t @ [Call a m]"
  by (simp add: invoke_def split: response.splits)

lemma connect_to_emu_invoke: "NRF5x_connect_to_emu drv self a = invoke drv a (emu_call self)"
  by (simp add: NRF5x_connect_to_emu_def emu_call_def)

lemma nrf_api_Some: "api nrf = Some f \<Longrightarrow> nrf_api drv nrf m = invoke drv f m"
  by (simp add: nrf_api_def)

lemma log_apply [simp]: "NRF5x_log nrf msg = return_io ()"
  by (rule ext) (simp add: NRF5x_log_def)

lemma bind_invoke:
  "bind_io (invoke drv a m) f t =
     (case drv t (Call a m) of
        Raises e \<Rightarrow> (Inl e, t @ [Call a m])
      | Returns v \<Rightarrow> f v (t @ [Call a m]))"
  by (simp add: bind_io_def invoke_def split: response.splits)

lemma try_invoke:
  "try_except (bind_io (invoke drv a m) (\<lambda>_. return_io x)) h t =
     (case drv t (Call a m) of
        Raises e \<Rightarrow> h e (t @ [Call a m])
      | Returns v \<Rightarrow> (Inr x, t @ [Call a m]))"
  by (simp add: try_except_def bind_io_def invoke_def return_io_def split: response.splits)

lemma for_each_append:
  "for_each body (xs @ ys) t =
     (case for_each body xs t of (Inl e, t') \<Rightarrow> (Inl e, t') | (Inr _, t') \<Rightarrow> for_each body ys t')"
  by (induction xs arbitrary: t) (auto split: prod.splits sum.splits)

lemma for_each_stops:
  assumes "for_each body pre t = (Inr (), t')" and "body x t' = (Inl e, t'')"
  shows "for_each body (pre @ x # post) t = (Inl e, t'')"
  using assms by (simp add: for_each_append)

lemma erased_iff: "(xs = replicate (length xs) c) = (\<forall>x \<in> set xs. x = c)"
proof
  assume "xs = replicate (length xs) c"
  then have "set xs \<subseteq> {c}" by (metis set_replicate_conv_if empty_subsetI subset_refl)
  then show "\<forall>x \<in> set xs. x = c" by auto
next
  assume "\<forall>x \<in> set xs. x = c"
  then show "xs = replicate (length xs) c" by (simp add: replicate_length_same)
qed

lemma emu_call_plain [simp]: "emu_call plain_nrf = Api_connect_to_emu_without_snr None"
  by (simp add: emu_call_def plain_nrf_def truthy_def)

lemmas run_defs =
  NRF5x_init_def NRF5x_setup_def NRF5x_connect_to_emu_def NRF5x_cleanup_def nrf_api_def
  program_def program_prepare_def program_segment_def verify_def verify_segment_def
  reset_def memwr_def underscore_reset_def bind_io_def try_except_def invoke_def
  return_io_def raise_io_def py_assert_def truthy_def scripted_def no_args_def
  seg1_def seg2_def session51_def nrf51_def read_call_def write_call_def

subsection \<open>Calls that a computation does not make\<close>

lemma filter_snd_bind:
  assumes "\<And>t. filter P (snd (m t)) = filter P t"
    and "\<And>v t. filter P (snd (f v t)) = filter P t"
  shows "filter P (snd (bind_io m f t)) = filter P t"
proof (cases "m t")
  case (Pair r t')
  with assms(1) [of t] have m: "filter P t' = filter P t" by simp
  show ?thesis
  proof (cases r)
    case (Inl e)
    with Pair m show ?thesis by (simp add: bind_io_def)
  next
    case (Inr v)
    with Pair m assms(2) [of v t'] show ?thesis by (simp add: bind_io_def)
  qed
qed

lemma filter_snd_try:
  assumes "\<And>t. filter P (snd (m t)) = filter P t"
    and "\<And>e t. filter P (snd (h e t)) = filter P t"
  shows "filter P (snd (try_except m h t)) = filter P t"
proof (cases "m t")
  case (Pair r t')
  with assms(1) [of t] have m: "filter P t' = filter P t" by simp
  show ?thesis
  proof (cases r)
    case (Inl e)
    with Pair m assms(2) [of e t'] show ?thesis by (simp add: try_except_def)
  next
    case (Inr v)
    with Pair m show ?thesis by (simp add: try_except_def)
  qed
qed

lemma filter_snd_invoke: "\<not> P (Call a m) \<Longrightarrow> filter P (snd (invoke drv a m t)) = filter P t"
  by simp

lemma filter_snd_return: "filter P (snd (return_io v t)) = filter P t"
  by (simp add: return_io_def)

lemma filter_snd_raise: "filter P (snd (raise_io e t)) = filter P t"
  by (simp add: raise_io_def)

lemma filter_snd_if:
  assumes "c \<Longrightarrow> filter P (snd (m t)) = filter P t"
    and "\<not> c \<Longrightarrow> filter P (snd (n t)) = filter P t"
  shows "filter P (snd ((if c then m else n) t)) = filter P t"
  using assms by simp

lemma filter_snd_case_exception:
  assumes "\<And>c. filter P (snd (f1 c t)) = filter P t"
    and "\<And>s. filter P (snd (f2 s t)) = filter P t"
    and "filter P (snd (f3 t)) = filter P t"
    and "filter P (snd (f4 t)) = filter P t"
    and "\<And>s. filter P (snd (f5 s t)) = filter P t"
  shows "filter P (snd ((case e of APIError c \<Rightarrow> f1 c | AssertionError s \<Rightarrow> f2 s
            | TypeError \<Rightarrow> f3 | AttributeError \<Rightarrow> f4 | OtherException s \<Rightarrow> f5 s) t)) =
         filter P t"
  using assms by (cases e) simp_all

lemma filter_snd_nrf_api:
  assumes "\<And>a. \<not> P (Call a m)"
  shows "filter P (snd (nrf_api drv nrf m t)) = filter P t"
  using assms by (cases "api nrf") (simp_all add: nrf_api_def raise_io_def)

lemma filter_snd_py_assert: "filter P (snd (py_assert c msg t)) = filter P t"
  by (simp add: py_assert_def return_io_def raise_io_def)

lemma filter_snd_log: "filter P (snd (NRF5x_log nrf msg t)) = filter P t"
  by (simp add: return_io_def)

lemma filter_snd_for_each:
  assumes "\<And>x t. filter P (snd (body x t)) = filter P t"
  shows "filter P (snd (for_each body xs t)) = filter P t"
proof (induction xs arbitrary: t)
  case Nil
  show ?case by simp
next
  case (Cons x xs)
  show ?case
  proof (cases "body x t")
    case (Pair r t')
    with assms [of x t] have keep: "filter P t' = filter P t" by simp
    show ?thesis
    proof (cases r)
      case (Inl e)
      with Pair keep show ?thesis by simp
    next
      case (Inr u)
      with Pair keep Cons.IH [of t'] show ?thesis by simp
    qed
  qed
qed

lemmas keeps_intros =
  filter_snd_if filter_snd_bind filter_snd_for_each filter_snd_nrf_api filter_snd_py_assert
  filter_snd_return filter_snd_raise

section \<open>Session Manager\<close>

text \<open>
  C7, as amended. \<open>_connect_to_emu\<close> makes exactly one probe-connect call, whatever the
  driver answers, and it is the call shape of the parameters that were supplied, where a
  serial number or clock speed counts as supplied when it is present and not zero: the code
  tests the truth value of each parameter, so a parameter that is \<open>0\<close> selects the same
  call as one that is absent.
\<close>

theorem connect_to_emu_one_matching_call:
  "snd (NRF5x_connect_to_emu drv self a t) =
     t @ [Call a (spec_connect_call (supplied (snr self)) (supplied (clockspeed self)))]"
  by (cases "snr self"; cases "clockspeed self")
     (simp_all add: NRF5x_connect_to_emu_def supplied_def truthy_def)

theorem connect_to_emu_one_matching_call_witness:
  "snd (NRF5x_connect_to_emu (scripted [])
          \<lparr>clockspeed = Some 4000, quiet = None, snr = Some 680123456, api = None\<rparr> NRF52 []) =
     [Call NRF52 (Api_connect_to_emu_with_snr 680123456 (Some 4000))]"
  using connect_to_emu_one_matching_call [of "scripted []"
      "\<lparr>clockspeed = Some 4000, quiet = None, snr = Some 680123456, api = None\<rparr>" NRF52 "[]"]
  by (simp add: supplied_def truthy_def)

text \<open>
  C7 as the specification states it fails for a serial number of \<open>0\<close> given alone: the
  call made is the one without arguments, not the serial-only one.
\<close>

theorem connect_to_emu_zero_serial_counterexample:
  "snd (NRF5x_connect_to_emu (scripted [])
          \<lparr>clockspeed = None, quiet = None, snr = Some 0, api = None\<rparr> NRF51 []) \<noteq>
     [Call NRF51 (spec_connect_call (Some 0) None)]"
  by (simp add: NRF5x_connect_to_emu_def truthy_def)

lemma setup_reaches_version_query:
  assumes "accepts drv t [Call NRF51 Api_open, Call NRF51 (emu_call self)]"
  shows "NRF5x_setup drv self [] t =
     bind_io
       (try_except
          (bind_io (invoke drv NRF51 Api_read_device_version) (\<lambda>_. return_io NRF51))
          (\<lambda>e. case e of
             APIError err_code \<Rightarrow>
               if err_code = WRONG_FAMILY_FOR_DEVICE then
                 bind_io (invoke drv NRF51 Api_close) (\<lambda>_.
                 bind_io (invoke drv NRF52 Api_open) (\<lambda>_.
                 bind_io (NRF5x_connect_to_emu drv self NRF52) (\<lambda>_.
                 return_io NRF52)))
               else raise_io e
           | _ \<Rightarrow> raise_io e))
       (\<lambda>a. bind_io (invoke drv a Api_connect_to_device) (\<lambda>_. return_io a))
       (t @ [Call NRF51 Api_open, Call NRF51 (emu_call self)])"
  using assms
  by (simp add: NRF5x_setup_def connect_to_emu_invoke bind_io_def invoke_def
        split: response.splits)

text \<open>
  C1. When the first version query fails with the wrong-family error, \<open>_setup\<close> goes on
  with a part of exactly these calls, in this order: close the Family-A handle, open
  Family-B, connect the probe by the same rule, connect to the device. It always makes the
  first of them, it never makes any other call, and so never opens a third family; the part
  ends early only where the driver raises. When the driver returns from all four, as the
  specification's stub that succeeds on Family-B does, \<open>_setup\<close> makes all four and
  returns the Family-B session.
\<close>

theorem setup_wrong_family_retries_once:
  assumes reach: "accepts drv t [Call NRF51 Api_open, Call NRF51 (emu_call self)]"
    and wrong: "drv (t @ [Call NRF51 Api_open, Call NRF51 (emu_call self)])
                  (Call NRF51 Api_read_device_version) =
                Raises (APIError WRONG_FAMILY_FOR_DEVICE)"
  shows "(\<exists>n. 0 < n \<and>
            snd (NRF5x_setup drv self [] t) = t @ setup_head self @ take n (setup_retry self)) \<and>
         (accepts drv (t @ setup_head self) (setup_retry self) \<longrightarrow>
            NRF5x_setup drv self [] t = (Inr NRF52, t @ setup_head self @ setup_retry self))"
proof -
  let ?t3 = "t @ setup_head self"
  show ?thesis
  proof (cases "drv ?t3 (Call NRF51 Api_close)")
    case (Raises e)
    then have "NRF5x_setup drv self [] t = (Inl e, ?t3 @ take 1 (setup_retry self))"
      using wrong
      by (simp add: setup_reaches_version_query [OF reach] setup_head_def setup_retry_def
            bind_io_def try_except_def invoke_def raise_io_def return_io_def)
    with Raises show ?thesis
      by (auto simp: setup_retry_def intro: exI [of _ 1])
  next
    case c: (Returns v1)
    show ?thesis
    proof (cases "drv (?t3 @ take 1 (setup_retry self)) (Call NRF52 Api_open)")
      case (Raises e)
      then have "NRF5x_setup drv self [] t = (Inl e, ?t3 @ take 2 (setup_retry self))"
        using wrong c
        by (simp add: setup_reaches_version_query [OF reach] setup_head_def setup_retry_def
              bind_io_def try_except_def invoke_def raise_io_def return_io_def)
      with Raises show ?thesis
        by (auto simp: setup_retry_def setup_head_def intro: exI [of _ 2])
    next
      case o: (Returns v2)
      show ?thesis
      proof (cases "drv (?t3 @ take 2 (setup_retry self)) (Call NRF52 (emu_call self))")
        case (Raises e)
        then have "NRF5x_setup drv self [] t = (Inl e, ?t3 @ take 3 (setup_retry self))"
          using wrong c o
          by (simp add: setup_reaches_version_query [OF reach] setup_head_def setup_retry_def
                connect_to_emu_invoke
                bind_io_def try_except_def invoke_def raise_io_def return_io_def)
        with Raises o show ?thesis
          by (auto simp: setup_retry_def setup_head_def intro: exI [of _ 3])
      next
        case e: (Returns v3)
        show ?thesis
        proof (cases "drv (?t3 @ take 3 (setup_retry self)) (Call NRF52 Api_connect_to_device)")
          case (Raises x)
          then have "NRF5x_setup drv self [] t = (Inl x, ?t3 @ take 4 (setup_retry self))"
            using wrong c o e
            by (simp add: setup_reaches_version_query [OF reach] setup_head_def setup_retry_def
                  connect_to_emu_invoke
                  bind_io_def try_except_def invoke_def raise_io_def return_io_def)
          with Raises o e show ?thesis
            by (auto simp: setup_retry_def setup_head_def intro: exI [of _ 4])
        next
          case (Returns v4)
          then have "NRF5x_setup drv self [] t = (Inr NRF52, ?t3 @ setup_retry self)"
            using wrong c o e
            by (simp add: setup_reaches_version_query [OF reach] setup_head_def setup_retry_def
                  connect_to_emu_invoke
                  bind_io_def try_except_def invoke_def raise_io_def return_io_def)
          then show ?thesis
            by (auto simp: setup_retry_def intro: exI [of _ 4])
        qed
      qed
    qed
  qed
qed

text \<open>
  A run of it: the version query of the third call fails with the wrong-family error.
\<close>

theorem setup_wrong_family_retries_once_witness:
  "NRF5x_setup (scripted [Returns [], Returns [], Raises (APIError WRONG_FAMILY_FOR_DEVICE)])
     plain_nrf [] [] =
   (Inr NRF52,
    [Call NRF51 Api_open, Call NRF51 (Api_connect_to_emu_without_snr None),
     Call NRF51 Api_read_device_version, Call NRF51 Api_close, Call NRF52 Api_open,
     Call NRF52 (Api_connect_to_emu_without_snr None), Call NRF52 Api_connect_to_device])"
proof -
  let ?drv = "scripted [Returns [], Returns [], Raises (APIError WRONG_FAMILY_FOR_DEVICE)]"
  have reach: "accepts ?drv [] [Call NRF51 Api_open, Call NRF51 (emu_call plain_nrf)]"
    by (simp add: scripted_def)
  have wrong: "?drv ([] @ [Call NRF51 Api_open, Call NRF51 (emu_call plain_nrf)])
                 (Call NRF51 Api_read_device_version) =
               Raises (APIError WRONG_FAMILY_FOR_DEVICE)"
    by (simp add: scripted_def)
  have rest: "accepts ?drv ([] @ setup_head plain_nrf) (setup_retry plain_nrf)"
    by (simp add: scripted_def setup_head_def setup_retry_def)
  from setup_wrong_family_retries_once [OF reach wrong] rest show ?thesis
    by (simp add: setup_head_def setup_retry_def)
qed

text \<open>
  C8. When the version query fails with anything else than the wrong-family error of the
  driver, \<open>_setup\<close> ends with that very exception and its last call is the version
  query: nothing is closed, and Family-B is not opened.
\<close>

theorem setup_other_error_propagates:
  assumes reach: "accepts drv t [Call NRF51 Api_open, Call NRF51 (emu_call self)]"
    and fails: "drv (t @ [Call NRF51 Api_open, Call NRF51 (emu_call self)])
                  (Call NRF51 Api_read_device_version) = Raises e"
    and other: "e \<noteq> APIError WRONG_FAMILY_FOR_DEVICE"
  shows "NRF5x_setup drv self [] t = (Inl e, t @ setup_head self)"
  using fails other
  by (cases e)
     (simp_all add: setup_reaches_version_query [OF reach] setup_head_def
        bind_io_def try_except_def invoke_def raise_io_def)

theorem setup_other_error_propagates_witness:
  "NRF5x_setup (scripted [Returns [], Returns [], Raises (APIError (OTHER_ERR_CODE (-11)))])
     plain_nrf [] [] =
   (Inl (APIError (OTHER_ERR_CODE (-11))),
    [Call NRF51 Api_open, Call NRF51 (Api_connect_to_emu_without_snr None),
     Call NRF51 Api_read_device_version])"
proof -
  let ?drv = "scripted [Returns [], Returns [], Raises (APIError (OTHER_ERR_CODE (-11)))]"
  have reach: "accepts ?drv [] [Call NRF51 Api_open, Call NRF51 (emu_call plain_nrf)]"
    by (simp add: scripted_def)
  have fails: "?drv ([] @ [Call NRF51 Api_open, Call NRF51 (emu_call plain_nrf)])
                 (Call NRF51 Api_read_device_version) =
               Raises (APIError (OTHER_ERR_CODE (-11)))"
    by (simp add: scripted_def)
  from setup_other_error_propagates [OF reach fails] show ?thesis
    by (simp add: setup_head_def)
qed

section \<open>Flash Programmer\<close>

lemma program_after_prepare:
  assumes "program_prepare drv a t0 = (Inr nrf, t1)"
  shows "program drv a segs t0 =
     bind_io (for_each (program_segment drv nrf a) segs) (\<lambda>_.
     bind_io (underscore_reset drv nrf a False) (\<lambda>_.
     NRF5x_cleanup drv nrf)) t1"
  using assms by (simp add: program_def bind_Inr)

lemma verify_after_init:
  assumes "NRF5x_init drv a False t0 = (Inr nrf, t1)"
  shows "verify drv a segs t0 =
     bind_io (for_each (verify_segment drv nrf) segs) (\<lambda>_. NRF5x_cleanup drv nrf) t1"
  using assms by (simp add: verify_def bind_Inr)

lemma program_segment_first_call:
  assumes "api nrf = Some f"
  shows "\<exists>rest. snd (program_segment drv nrf a seg t) = t @ read_call f seg # rest"
  using assms
  by (simp add: program_segment_def nrf_api_Some bind_io_def invoke_def py_assert_def
        return_io_def raise_io_def read_call_def split: response.splits)

lemma program_segment_not_erased:
  assumes api: "api nrf = Some f"
    and rd: "drv t (read_call f seg) = Returns read_data"
    and dirty: "\<exists>b \<in> set read_data. b \<noteq> 0xFF"
  shows "program_segment drv nrf a seg t = (Inl (AssertionError not_erased_msg), t @ [read_call f seg])"
proof -
  from dirty have "read_data \<noteq> replicate (length read_data) 0xFF"
    by (subst erased_iff) auto
  with rd show ?thesis
    using api
    by (simp add: program_segment_def nrf_api_Some bind_io_def invoke_def py_assert_def
          raise_io_def read_call_def not_erased_msg_def)
qed

text \<open>
  C4. The first call \<open>program\<close> makes for a segment is the read of its destination
  range. When the segments before it were programmed and that read returns a byte that is
  not \<open>0xFF\<close>, \<open>program\<close> ends with the assertion error of the erase check, and the
  read is its last call: no write for the segment, no later segment, no reset, no cleanup.
\<close>

theorem program_not_erased_fails_fast:
  assumes prep: "program_prepare drv a t0 = (Inr nrf, t1)"
    and api: "api nrf = Some f"
    and before: "for_each (program_segment drv nrf a) pre t1 = (Inr (), t2)"
    and rd: "drv t2 (read_call f seg) = Returns read_data"
    and dirty: "\<exists>b \<in> set read_data. b \<noteq> 0xFF"
  shows "(\<exists>rest. snd (program_segment drv nrf a seg t2) = t2 @ read_call f seg # rest) \<and>
         program drv a (pre @ seg # post) t0 =
           (Inl (AssertionError not_erased_msg), t2 @ [read_call f seg])"
proof
  show "\<exists>rest. snd (program_segment drv nrf a seg t2) = t2 @ read_call f seg # rest"
    by (rule program_segment_first_call [OF api])
next
  have "for_each (program_segment drv nrf a) (pre @ seg # post) t1 =
          (Inl (AssertionError not_erased_msg), t2 @ [read_call f seg])"
    by (rule for_each_stops [OF before
          program_segment_not_erased [where drv = drv and t = t2, OF api rd dirty]])
  then show "program drv a (pre @ seg # post) t0 =
               (Inl (AssertionError not_erased_msg), t2 @ [read_call f seg])"
    by (simp add: program_after_prepare [OF prep] bind_Inl)
qed

text \<open>
  A run of it: the first segment is programmed, the second one reads \<open>[0xFF, 0x00]\<close>.
\<close>

theorem program_not_erased_fails_fast_witness:
  "program
     (scripted [Returns [], Returns [], Returns [5, 1], Returns [],
                Returns [255, 255], Returns [], Returns [255, 0]])
     no_args [seg1, seg2, seg1] [] =
   (Inl (AssertionError not_erased_msg),
    session51 @ [read_call NRF51 seg1, write_call NRF51 seg1, read_call NRF51 seg2])"
proof -
  let ?drv = "scripted [Returns [], Returns [], Returns [5, 1], Returns [],
                        Returns [255, 255], Returns [], Returns [255, 0]]"
  let ?t2 = "session51 @ [read_call NRF51 seg1, write_call NRF51 seg1]"
  have prep: "program_prepare ?drv no_args [] = (Inr nrf51, session51)"
    by (simp add: run_defs)
  have api: "api nrf51 = Some NRF51"
    by (simp add: nrf51_def)
  have before: "for_each (program_segment ?drv nrf51 no_args) [seg1] session51 = (Inr (), ?t2)"
    by (simp add: run_defs)
  have rd: "?drv ?t2 (read_call NRF51 seg2) = Returns [255, 0]"
    by (simp add: run_defs)
  have dirty: "\<exists>b \<in> set [255, 0 :: int]. b \<noteq> 0xFF"
    by simp
  from program_not_erased_fails_fast [OF prep api before rd dirty, of "[seg1]"]
  show ?thesis by simp
qed

lemma program_segment_verified:
  assumes api: "api nrf = Some f" and v: "verify_flag a"
    and rd1: "drv t (read_call f seg) = Returns pre_read"
    and erased: "pre_read = replicate (length pre_read) 0xFF"
    and wr: "drv (t @ [read_call f seg]) (write_call f seg) = Returns w"
    and rd2: "drv (t @ [read_call f seg, write_call f seg]) (read_call f seg) = Returns read_data"
  shows "program_segment drv nrf a seg t =
           (if read_data = data seg then Inr () else Inl (AssertionError verify_failed_msg),
            t @ [read_call f seg, write_call f seg, read_call f seg])"
  using api v rd1 wr rd2 erased [symmetric]
  by (simp add: program_segment_def nrf_api_Some bind_io_def invoke_def py_assert_def
        raise_io_def return_io_def read_call_def write_call_def verify_failed_msg_def)

text \<open>
  C5. With \<open>verify\<close> requested, for a segment that read erased and that the driver
  wrote, \<open>program\<close> reads the range it has just written once more, same address and
  same length, and compares what it gets with the data of the segment as a whole list:
  the segment passes exactly when the two are equal, so one differing byte at any
  position makes \<open>program\<close> end with the assertion error of the verification.
\<close>

theorem program_verify_rereads_and_compares:
  assumes prep: "program_prepare drv a t0 = (Inr nrf, t1)"
    and api: "api nrf = Some f"
    and before: "for_each (program_segment drv nrf a) pre t1 = (Inr (), t2)"
    and v: "verify_flag a"
    and rd1: "drv t2 (read_call f seg) = Returns pre_read"
    and erased: "pre_read = replicate (length pre_read) 0xFF"
    and wr: "drv (t2 @ [read_call f seg]) (write_call f seg) = Returns w"
    and rd2: "drv (t2 @ [read_call f seg, write_call f seg]) (read_call f seg) = Returns read_data"
  shows "program_segment drv nrf a seg t2 =
           (if read_data = data seg then Inr () else Inl (AssertionError verify_failed_msg),
            t2 @ [read_call f seg, write_call f seg, read_call f seg]) \<and>
         (read_data \<noteq> data seg \<longrightarrow>
            program drv a (pre @ seg # post) t0 =
              (Inl (AssertionError verify_failed_msg),
               t2 @ [read_call f seg, write_call f seg, read_call f seg]))"
proof (intro conjI impI)
  show seg: "program_segment drv nrf a seg t2 =
           (if read_data = data seg then Inr () else Inl (AssertionError verify_failed_msg),
            t2 @ [read_call f seg, write_call f seg, read_call f seg])"
    by (rule program_segment_verified [where drv = drv and t = t2, OF api v rd1 erased wr rd2])
  assume "read_data \<noteq> data seg"
  with seg have "program_segment drv nrf a seg t2 =
      (Inl (AssertionError verify_failed_msg),
       t2 @ [read_call f seg, write_call f seg, read_call f seg])"
    by simp
  from for_each_stops [OF before this]
  show "program drv a (pre @ seg # post) t0 =
              (Inl (AssertionError verify_failed_msg),
               t2 @ [read_call f seg, write_call f seg, read_call f seg])"
    by (simp add: program_after_prepare [OF prep] bind_Inl)
qed

text \<open>
  A run of it: \<open>[1, 2]\<close> is written and \<open>[1, 3]\<close> is read back.
\<close>

theorem program_verify_rereads_and_compares_witness:
  "program
     (scripted [Returns [], Returns [], Returns [5, 1], Returns [],
                Returns [255, 255], Returns [], Returns [1, 3]])
     (no_args\<lparr>verify_flag := True\<rparr>) [seg1, seg2] [] =
   (Inl (AssertionError verify_failed_msg),
    session51 @ [read_call NRF51 seg1, write_call NRF51 seg1, read_call NRF51 seg1])"
proof -
  let ?drv = "scripted [Returns [], Returns [], Returns [5, 1], Returns [],
                        Returns [255, 255], Returns [], Returns [1, 3]]"
  let ?a = "no_args\<lparr>verify_flag := True\<rparr>"
  have prep: "program_prepare ?drv ?a [] = (Inr nrf51, session51)"
    by (simp add: run_defs)
  have api: "api nrf51 = Some NRF51"
    by (simp add: nrf51_def)
  have before: "for_each (program_segment ?drv nrf51 ?a) [] session51 = (Inr (), session51)"
    by simp
  have v: "verify_flag ?a"
    by simp
  have rd1: "?drv session51 (read_call NRF51 seg1) = Returns [255, 255]"
    by (simp add: run_defs)
  have erased: "[255, 255] = replicate (length [255, 255 :: int]) (0xFF :: int)"
    by (simp add: numeral_2_eq_2)
  have wr: "?drv (session51 @ [read_call NRF51 seg1]) (write_call NRF51 seg1) = Returns []"
    by (simp add: run_defs)
  have rd2: "?drv (session51 @ [read_call NRF51 seg1, write_call NRF51 seg1])
               (read_call NRF51 seg1) = Returns [1, 3]"
    by (simp add: run_defs)
  have differs: "[1, 3] \<noteq> data seg1"
    by (simp add: seg1_def)
  from program_verify_rereads_and_compares
         [where drv = ?drv and post = "[seg2]", OF prep api before v rd1 erased wr rd2] differs
  show ?thesis by simp
qed

text \<open>
  C9. A segment that \<open>program\<close> has written and verified passes \<open>verify\<close> afterwards,
  by whatever session and driver, when the device memory has not changed: when the read of
  the range of the segment answers what it answered to the verifying read of
  \<open>program\<close>. The comparison of \<open>verify\<close> then succeeds, and the \<open>verify\<close> command
  on that segment goes on to its cleanup.
\<close>

theorem verify_after_verified_program:
  assumes api: "api nrf = Some f" and v: "verify_flag a"
    and programmed: "program_segment drv nrf a seg t = (Inr (), t')"
    and api': "api nrf' = Some g"
    and unchanged: "drv' u (read_call g seg) =
                    drv (t @ [read_call f seg, write_call f seg]) (read_call f seg)"
  shows "verify_segment drv' nrf' seg u = (Inr (), u @ [read_call g seg]) \<and>
         (NRF5x_init drv' a' False u0 = (Inr nrf', u) \<longrightarrow>
            verify drv' a' [seg] u0 = NRF5x_cleanup drv' nrf' (u @ [read_call g seg]))"
proof -
  from programmed api v
  have "drv (t @ [read_call f seg, write_call f seg]) (read_call f seg) = Returns (data seg)"
    by (simp add: program_segment_def nrf_api_Some bind_io_def invoke_def py_assert_def
          raise_io_def return_io_def read_call_def write_call_def
          split: response.splits if_splits)
  with unchanged have "drv' u (read_call g seg) = Returns (data seg)"
    by simp
  then have seg: "verify_segment drv' nrf' seg u = (Inr (), u @ [read_call g seg])"
    using api'
    by (simp add: verify_segment_def nrf_api_Some bind_io_def invoke_def py_assert_def
          return_io_def read_call_def)
  then have "for_each (verify_segment drv' nrf') [seg] u = (Inr (), u @ [read_call g seg])"
    by simp
  then have "NRF5x_init drv' a' False u0 = (Inr nrf', u) \<Longrightarrow>
      verify drv' a' [seg] u0 = NRF5x_cleanup drv' nrf' (u @ [read_call g seg])"
    by (simp add: verify_after_init bind_Inr)
  with seg show ?thesis by simp
qed

theorem verify_after_verified_program_witness:
  "verify (scripted [Returns [], Returns [], Returns [5, 1], Returns [], Returns [1, 2]])
     no_args [seg1] [] =
   (Inr (),
    session51 @ [read_call NRF51 seg1, Call NRF51 Api_disconnect_from_emu, Call NRF51 Api_close])"
proof -
  let ?drv = "scripted [Returns [255, 255], Returns [], Returns [1, 2]]"
  let ?drv' = "scripted [Returns [], Returns [], Returns [5, 1], Returns [], Returns [1, 2]]"
  let ?a = "no_args\<lparr>verify_flag := True\<rparr>"
  have api: "api nrf51 = Some NRF51"
    by (simp add: nrf51_def)
  have v: "verify_flag ?a"
    by simp
  have programmed: "program_segment ?drv nrf51 ?a seg1 [] =
      (Inr (), [read_call NRF51 seg1, write_call NRF51 seg1, read_call NRF51 seg1])"
    by (simp add: run_defs numeral_2_eq_2)
  have unchanged: "?drv' session51 (read_call NRF51 seg1) =
      ?drv ([] @ [read_call NRF51 seg1, write_call NRF51 seg1]) (read_call NRF51 seg1)"
    by (simp add: run_defs)
  have init: "NRF5x_init ?drv' no_args False [] = (Inr nrf51, session51)"
    by (simp add: run_defs)
  have cleanup: "NRF5x_cleanup ?drv' nrf51 (session51 @ [read_call NRF51 seg1]) =
      (Inr (), session51 @
        [read_call NRF51 seg1, Call NRF51 Api_disconnect_from_emu, Call NRF51 Api_close])"
    by (simp add: run_defs)
  from verify_after_verified_program
         [where drv = ?drv and drv' = ?drv' and a' = no_args and ?u0.0 = "[]",
          OF api v programmed api unchanged] init cleanup
  show ?thesis by simp
qed

section \<open>Reset Sequencer\<close>

lemma cleanup_calls:
  assumes "api nrf = Some f"
  shows "\<exists>rest. snd (NRF5x_cleanup drv nrf t) = t @ rest \<and> set rest \<subseteq> release_calls f"
proof (cases "drv t (Call f Api_disconnect_from_emu)")
  case (Raises e)
  with assms have "snd (NRF5x_cleanup drv nrf t) = t @ [Call f Api_disconnect_from_emu]"
    by (simp add: NRF5x_cleanup_def nrf_api_Some bind_io_def invoke_def)
  then show ?thesis by (simp add: release_calls_def)
next
  case (Returns v)
  with assms have "snd (NRF5x_cleanup drv nrf t) =
      t @ [Call f Api_disconnect_from_emu, Call f Api_close]"
    by (simp add: NRF5x_cleanup_def nrf_api_Some bind_io_def invoke_def return_io_def
          split: response.splits)
  then show ?thesis by (simp add: release_calls_def)
qed

lemma reset_after_init:
  assumes "NRF5x_init drv a False t0 = (Inr nrf, t1)"
  shows "reset drv a t0 =
     bind_io (underscore_reset drv nrf a True) (\<lambda>_. NRF5x_cleanup drv nrf) t1"
  using assms by (simp add: reset_def bind_Inr)

lemma underscore_reset_requested:
  assumes "api nrf = Some f" and "debugreset a \<or> pinreset a \<or> systemreset a \<or> d"
  shows "underscore_reset drv nrf a d =
     bind_io (invoke drv f (reset_primitive a)) (\<lambda>_.
     bind_io (invoke drv f Api_go) (\<lambda>_. return_io ()))"
  using assms by (auto simp: underscore_reset_def reset_primitive_def nrf_api_Some)

lemma underscore_reset_not_requested:
  assumes "\<not> debugreset a" and "\<not> pinreset a" and "\<not> systemreset a" and "\<not> d"
  shows "underscore_reset drv nrf a d t = (Inr (), t)"
  using assms by (simp add: underscore_reset_def return_io_def)

lemma program_after_loop:
  assumes "program_prepare drv a t0 = (Inr nrf, t1)"
    and "for_each (program_segment drv nrf a) segs t1 = (Inr (), t)"
  shows "program drv a segs t0 =
     bind_io (underscore_reset drv nrf a False) (\<lambda>_. NRF5x_cleanup drv nrf) t"
  using assms by (cases "verify_flag a") (simp_all add: program_after_prepare bind_Inr)

lemma pair_calls:
  "\<exists>n. 0 < n \<and>
     snd (bind_io (invoke drv f p) (\<lambda>_. bind_io (invoke drv f Api_go) (\<lambda>_. return_io ())) t) =
       t @ take n [Call f p, Call f Api_go]"
proof (cases "drv t (Call f p)")
  case (Raises e)
  then have "snd (bind_io (invoke drv f p)
      (\<lambda>_. bind_io (invoke drv f Api_go) (\<lambda>_. return_io ())) t) =
      t @ take 1 [Call f p, Call f Api_go]"
    by (simp add: bind_invoke)
  then show ?thesis by (intro exI [of _ 1]) simp
next
  case (Returns v)
  then have "snd (bind_io (invoke drv f p)
      (\<lambda>_. bind_io (invoke drv f Api_go) (\<lambda>_. return_io ())) t) =
      t @ take 2 [Call f p, Call f Api_go]"
    by (simp add: bind_invoke return_io_def split: response.splits)
  then show ?thesis by (intro exI [of _ 2]) simp
qed

lemma pair_when_accepted:
  assumes "drv t (Call f p) = Returns v"
  shows "snd (bind_io (invoke drv f p) (\<lambda>_. bind_io (invoke drv f Api_go) (\<lambda>_. return_io ())) t) =
       t @ [Call f p, Call f Api_go]"
  using assms by (simp add: bind_invoke return_io_def split: response.splits)

lemma pair_then_cleanup:
  assumes api: "api nrf = Some f" and ok: "drv t (Call f p) = Returns v"
  shows "\<exists>rest.
     snd (bind_io
            (bind_io (invoke drv f p) (\<lambda>_. bind_io (invoke drv f Api_go) (\<lambda>_. return_io ())))
            (\<lambda>_. NRF5x_cleanup drv nrf) t) =
       t @ [Call f p, Call f Api_go] @ rest \<and>
     set rest \<subseteq> release_calls f"
proof (cases "drv (t @ [Call f p]) (Call f Api_go)")
  case (Raises e)
  with ok have "snd (bind_io
            (bind_io (invoke drv f p) (\<lambda>_. bind_io (invoke drv f Api_go) (\<lambda>_. return_io ())))
            (\<lambda>_. NRF5x_cleanup drv nrf) t) = t @ [Call f p, Call f Api_go]"
    by (simp add: bind_io_def invoke_def)
  then show ?thesis by (intro exI [of _ "[]"]) simp
next
  case (Returns w)
  with ok have "bind_io
            (bind_io (invoke drv f p) (\<lambda>_. bind_io (invoke drv f Api_go) (\<lambda>_. return_io ())))
            (\<lambda>_. NRF5x_cleanup drv nrf) t =
          NRF5x_cleanup drv nrf (t @ [Call f p, Call f Api_go])"
    by (simp add: bind_io_def invoke_def return_io_def)
  with cleanup_calls [OF api, of drv "t @ [Call f p, Call f Api_go]"] show ?thesis by simp
qed

text \<open>
  C6, as amended. \<open>_reset\<close> is called by the \<open>reset\<close> command with system reset as the
  default, and by \<open>program\<close> without it. Whenever a reset is requested, by a mode in the
  arguments or by the default, \<open>_reset\<close> makes one reset call, of the one mode selected
  (debug, else pin, else system), and nothing else but \<open>go\<close> right after it; it makes
  \<open>go\<close> whenever the driver returns from the reset call. When no mode is given and system
  reset is not the default, it makes no call at all. So the \<open>reset\<close> command always runs
  one pair, the system one when no mode is given, and then makes no further call but those
  of \<open>cleanup\<close>; \<open>program\<close> runs the pair after its loop when a mode is given, and goes
  straight to \<open>cleanup\<close> when none is.
\<close>

theorem reset_pair_when_requested:
  assumes api: "api nrf = Some f"
  shows "(debugreset a \<or> pinreset a \<or> systemreset a \<or> d \<longrightarrow>
            (\<exists>n. 0 < n \<and> snd (underscore_reset drv nrf a d t) =
               t @ take n [Call f (reset_primitive a), Call f Api_go]) \<and>
            ((\<exists>v. drv t (Call f (reset_primitive a)) = Returns v) \<longrightarrow>
               snd (underscore_reset drv nrf a d t) =
                 t @ [Call f (reset_primitive a), Call f Api_go])) \<and>
         (\<not> debugreset a \<and> \<not> pinreset a \<and> \<not> systemreset a \<and> \<not> d \<longrightarrow>
            underscore_reset drv nrf a d t = (Inr (), t)) \<and>
         (NRF5x_init drv a False t0 = (Inr nrf, t) \<and>
          (\<exists>v. drv t (Call f (reset_primitive a)) = Returns v) \<longrightarrow>
            (\<exists>rest. snd (reset drv a t0) =
               t @ [Call f (reset_primitive a), Call f Api_go] @ rest \<and>
               set rest \<subseteq> release_calls f)) \<and>
         (program_prepare drv a t0 = (Inr nrf, t1) \<and>
          for_each (program_segment drv nrf a) segs t1 = (Inr (), t) \<and>
          (debugreset a \<or> pinreset a \<or> systemreset a) \<and>
          (\<exists>v. drv t (Call f (reset_primitive a)) = Returns v) \<longrightarrow>
            (\<exists>rest. snd (program drv a segs t0) =
               t @ [Call f (reset_primitive a), Call f Api_go] @ rest \<and>
               set rest \<subseteq> release_calls f)) \<and>
         (program_prepare drv a t0 = (Inr nrf, t1) \<and>
          for_each (program_segment drv nrf a) segs t1 = (Inr (), t) \<and>
          \<not> debugreset a \<and> \<not> pinreset a \<and> \<not> systemreset a \<longrightarrow>
            program drv a segs t0 = NRF5x_cleanup drv nrf t) \<and>
         (\<not> debugreset a \<and> \<not> pinreset a \<longrightarrow> reset_primitive a = Api_sys_reset)"
proof (intro conjI impI)
  assume req: "debugreset a \<or> pinreset a \<or> systemreset a \<or> d"
  show "\<exists>n. 0 < n \<and> snd (underscore_reset drv nrf a d t) =
          t @ take n [Call f (reset_primitive a), Call f Api_go]"
    unfolding underscore_reset_requested [OF api req] by (rule pair_calls)
  assume "\<exists>v. drv t (Call f (reset_primitive a)) = Returns v"
  then obtain v where "drv t (Call f (reset_primitive a)) = Returns v" ..
  then show "snd (underscore_reset drv nrf a d t) =
      t @ [Call f (reset_primitive a), Call f Api_go]"
    unfolding underscore_reset_requested [OF api req] by (rule pair_when_accepted)
next
  assume "\<not> debugreset a \<and> \<not> pinreset a \<and> \<not> systemreset a \<and> \<not> d"
  then show "underscore_reset drv nrf a d t = (Inr (), t)"
    by (simp add: underscore_reset_not_requested)
next
  assume h: "NRF5x_init drv a False t0 = (Inr nrf, t) \<and>
             (\<exists>v. drv t (Call f (reset_primitive a)) = Returns v)"
  then obtain v where ok: "drv t (Call f (reset_primitive a)) = Returns v" by blast
  from h have "reset drv a t0 =
      bind_io (underscore_reset drv nrf a True) (\<lambda>_. NRF5x_cleanup drv nrf) t"
    by (simp add: reset_after_init)
  then show "\<exists>rest. snd (reset drv a t0) =
      t @ [Call f (reset_primitive a), Call f Api_go] @ rest \<and> set rest \<subseteq> release_calls f"
    using pair_then_cleanup [where drv = drv and t = t, OF api ok] by (simp add: underscore_reset_requested [OF api])
next
  assume h: "program_prepare drv a t0 = (Inr nrf, t1) \<and>
             for_each (program_segment drv nrf a) segs t1 = (Inr (), t) \<and>
             (debugreset a \<or> pinreset a \<or> systemreset a) \<and>
             (\<exists>v. drv t (Call f (reset_primitive a)) = Returns v)"
  then obtain v where ok: "drv t (Call f (reset_primitive a)) = Returns v" by blast
  from h have req: "debugreset a \<or> pinreset a \<or> systemreset a \<or> False" by blast
  from h have "program drv a segs t0 =
      bind_io (underscore_reset drv nrf a False) (\<lambda>_. NRF5x_cleanup drv nrf) t"
    by (simp add: program_after_loop)
  then show "\<exists>rest. snd (program drv a segs t0) =
      t @ [Call f (reset_primitive a), Call f Api_go] @ rest \<and> set rest \<subseteq> release_calls f"
    using pair_then_cleanup [where drv = drv and t = t, OF api ok] by (simp add: underscore_reset_requested [OF api req])
next
  assume h: "program_prepare drv a t0 = (Inr nrf, t1) \<and>
             for_each (program_segment drv nrf a) segs t1 = (Inr (), t) \<and>
             \<not> debugreset a \<and> \<not> pinreset a \<and> \<not> systemreset a"
  then have "program drv a segs t0 =
      bind_io (underscore_reset drv nrf a False) (\<lambda>_. NRF5x_cleanup drv nrf) t"
    by (simp add: program_after_loop)
  with h show "program drv a segs t0 = NRF5x_cleanup drv nrf t"
    by (simp add: bind_Inr [OF underscore_reset_not_requested])
next
  assume "\<not> debugreset a \<and> \<not> pinreset a"
  then show "reset_primitive a = Api_sys_reset"
    by (simp add: reset_primitive_def)
qed

text \<open>
  Two runs of it: the \<open>reset\<close> command with no mode, and \<open>program\<close> with pin reset.
\<close>

theorem reset_pair_when_requested_witness:
  "(\<exists>rest. snd (reset (scripted []) no_args []) =
      session51 @ [Call NRF51 Api_sys_reset, Call NRF51 Api_go] @ rest \<and>
      set rest \<subseteq> release_calls NRF51) \<and>
   (\<exists>rest. snd (program (scripted [Returns [], Returns [], Returns [5, 1], Returns [],
                                   Returns [255, 255]])
                  (no_args\<lparr>pinreset := True\<rparr>) [seg1] []) =
      (session51 @ [read_call NRF51 seg1, write_call NRF51 seg1]) @
        [Call NRF51 Api_pin_reset, Call NRF51 Api_go] @ rest \<and>
      set rest \<subseteq> release_calls NRF51)"
proof -
  let ?drv = "scripted [Returns [], Returns [], Returns [5, 1], Returns [], Returns [255, 255]]"
  let ?a = "no_args\<lparr>pinreset := True\<rparr>"
  let ?t = "session51 @ [read_call NRF51 seg1, write_call NRF51 seg1]"
  have api: "api nrf51 = Some NRF51"
    by (simp add: nrf51_def)
  have init: "NRF5x_init (scripted []) no_args False [] = (Inr nrf51, session51)"
    by (simp add: run_defs)
  have sys: "reset_primitive no_args = Api_sys_reset"
    by (simp add: reset_primitive_def no_args_def)
  have ok1: "\<exists>v. scripted [] session51 (Call NRF51 (reset_primitive no_args)) = Returns v"
    by (simp add: scripted_def)
  have prep: "program_prepare ?drv ?a [] = (Inr nrf51, session51)"
    by (simp add: run_defs)
  have loop: "for_each (program_segment ?drv nrf51 ?a) [seg1] session51 = (Inr (), ?t)"
    by (simp add: run_defs numeral_2_eq_2)
  have pin: "reset_primitive ?a = Api_pin_reset"
    by (simp add: reset_primitive_def no_args_def)
  have mode: "debugreset ?a \<or> pinreset ?a \<or> systemreset ?a"
    by simp
  have ok2: "\<exists>v. ?drv ?t (Call NRF51 (reset_primitive ?a)) = Returns v"
    by (simp add: run_defs)
  from reset_pair_when_requested
         [OF api, where drv = "scripted []" and a = no_args and ?t0.0 = "[]" and t = session51]
       init ok1 sys
  have first: "\<exists>rest. snd (reset (scripted []) no_args []) =
      session51 @ [Call NRF51 Api_sys_reset, Call NRF51 Api_go] @ rest \<and>
      set rest \<subseteq> release_calls NRF51"
    by simp
  from reset_pair_when_requested
         [OF api, where drv = ?drv and a = ?a and ?t0.0 = "[]" and ?t1.0 = session51
            and t = ?t and segs = "[seg1]"]
       prep loop mode ok2 pin
  have second: "\<exists>rest. snd (program ?drv ?a [seg1] []) =
      ?t @ [Call NRF51 Api_pin_reset, Call NRF51 Api_go] @ rest \<and>
      set rest \<subseteq> release_calls NRF51"
    by simp
  from first second show ?thesis by simp
qed

text \<open>
  C6 as the specification states it fails for \<open>_reset\<close> as \<open>program\<close> calls it: with no
  mode in the arguments it makes no reset call and no \<open>go\<close>, and the calls of \<open>program\<close>
  after the session is set up are those of \<open>cleanup\<close> alone.
\<close>

theorem reset_without_mode_from_program_counterexample:
  "underscore_reset (scripted []) nrf51 no_args False session51 = (Inr (), session51) \<and>
   program (scripted []) no_args [] [] =
     (Inr (), session51 @ [Call NRF51 Api_disconnect_from_emu, Call NRF51 Api_close])"
  by (simp add: run_defs)

section \<open>Memory write\<close>

lemma emu_call_not_write: "\<not> is_write_call (Call a (emu_call self))"
  by (simp add: emu_call_def)

lemma setup_no_writes: "write_calls (snd (NRF5x_setup drv self extra t)) = write_calls t"
  unfolding write_calls_def NRF5x_setup_def connect_to_emu_invoke
  by (intro filter_snd_if filter_snd_bind filter_snd_try filter_snd_case_exception
        filter_snd_invoke filter_snd_return filter_snd_raise emu_call_not_write)
     simp_all

lemma init_no_writes: "write_calls (snd (NRF5x_init drv a b t)) = write_calls t"
  unfolding write_calls_def NRF5x_init_def Let_def
  by (intro filter_snd_if filter_snd_bind filter_snd_return
        setup_no_writes [unfolded write_calls_def])

lemma cleanup_no_writes:
  "write_calls (snd (NRF5x_cleanup drv nrf t)) = write_calls t"
  unfolding write_calls_def NRF5x_cleanup_def nrf_api_def
  by (cases "api nrf")
     (simp_all add: bind_io_def raise_io_def return_io_def invoke_def
        split: response.splits)

lemma memwr_after_init:
  assumes "NRF5x_init drv a False t0 = (Inr nrf, t1)"
  shows "memwr drv a t0 =
     bind_io
       (if flash a then nrf_api drv nrf (Api_write_u32 (addr a) (val a) True)
        else
          bind_io (py_assert (addr a \<ge> 0x80000) needs_flash_msg) (\<lambda>_.
          nrf_api drv nrf (Api_write_u32 (addr a) (val a) False)))
       (\<lambda>_. NRF5x_cleanup drv nrf) t1"
  using assms by (simp add: memwr_def bind_Inr needs_flash_msg_def)

lemma write_then_cleanup:
  "write_calls (snd (bind_io (invoke drv f (Api_write_u32 x y z)) (\<lambda>_. NRF5x_cleanup drv nrf) t)) =
     write_calls t @ [Call f (Api_write_u32 x y z)]"
proof (cases "drv t (Call f (Api_write_u32 x y z))")
  case (Raises e)
  then show ?thesis by (simp add: bind_io_def invoke_def write_calls_def)
next
  case (Returns v)
  then have "bind_io (invoke drv f (Api_write_u32 x y z)) (\<lambda>_. NRF5x_cleanup drv nrf) t =
      NRF5x_cleanup drv nrf (t @ [Call f (Api_write_u32 x y z)])"
    by (simp add: bind_io_def invoke_def)
  then show ?thesis by (simp add: cleanup_no_writes) (simp add: write_calls_def)
qed

text \<open>
  C10. Once the session is set up, \<open>memwr\<close> with the flash option makes exactly one
  write call, the flash-targeted word write at the address; without the option and with an
  address below \<open>0x80000\<close> it ends with the assertion error before any write call; and
  without the option otherwise it makes exactly one write call, the non-flash word write
  at the address.
\<close>

theorem memwr_write_guard:
  assumes init: "NRF5x_init drv a False t0 = (Inr nrf, t1)"
    and api: "api nrf = Some f"
  shows "(flash a \<longrightarrow>
            write_calls (snd (memwr drv a t0)) =
              write_calls t0 @ [Call f (Api_write_u32 (addr a) (val a) True)]) \<and>
         (\<not> flash a \<and> addr a < 0x80000 \<longrightarrow>
            memwr drv a t0 = (Inl (AssertionError needs_flash_msg), t1) \<and>
            write_calls t1 = write_calls t0) \<and>
         (\<not> flash a \<and> 0x80000 \<le> addr a \<longrightarrow>
            write_calls (snd (memwr drv a t0)) =
              write_calls t0 @ [Call f (Api_write_u32 (addr a) (val a) False)])"
proof -
  from init_no_writes [of drv a False t0] init
  have t1: "write_calls t1 = write_calls t0" by simp
  show ?thesis
    by (simp add: memwr_after_init [OF init] nrf_api_Some [OF api] write_then_cleanup t1
          py_assert_def raise_io_def)
qed

text \<open>
  Three runs of it: a RAM address, a flash address without the option, and with it.
\<close>

theorem memwr_write_guard_witness:
  "write_calls (snd (memwr (scripted []) (no_args\<lparr>addr := 0x20000000, val := 7\<rparr>) [])) =
     [Call NRF51 (Api_write_u32 0x20000000 7 False)] \<and>
   memwr (scripted []) (no_args\<lparr>addr := 0x1000, val := 7\<rparr>) [] =
     (Inl (AssertionError needs_flash_msg), session51) \<and>
   write_calls (snd (memwr (scripted []) (no_args\<lparr>addr := 0x1000, val := 7, flash := True\<rparr>) [])) =
     [Call NRF51 (Api_write_u32 0x1000 7 True)]"
proof -
  have api: "api nrf51 = Some NRF51"
    by (simp add: nrf51_def)
  have i1: "NRF5x_init (scripted []) (no_args\<lparr>addr := 0x20000000, val := 7\<rparr>) False [] =
      (Inr nrf51, session51)"
    by (simp add: run_defs)
  have i2: "NRF5x_init (scripted []) (no_args\<lparr>addr := 0x1000, val := 7\<rparr>) False [] =
      (Inr nrf51, session51)"
    by (simp add: run_defs)
  have i3: "NRF5x_init (scripted []) (no_args\<lparr>addr := 0x1000, val := 7, flash := True\<rparr>) False [] =
      (Inr nrf51, session51)"
    by (simp add: run_defs)
  from memwr_write_guard [OF i1 api] memwr_write_guard [OF i2 api] memwr_write_guard [OF i3 api]
  show ?thesis
    by (simp add: no_args_def write_calls_def)
qed

section \<open>Recovery Strategy\<close>

lemma recover_is_fallback:
  "recover drv a t =
     bind_io (invoke drv NRF52 Api_open) (\<lambda>_.
     bind_io (invoke drv NRF52
        (emu_call \<lparr>clockspeed = arg_clockspeed a, quiet = arg_quiet a, snr = arg_snr a,
                    api = None\<rparr>)) (\<lambda>_.
     bind_io (invoke drv NRF52 Api_recover) (\<lambda>_.
     bind_io (invoke drv NRF52 Api_disconnect_from_emu) (\<lambda>_.
     bind_io (invoke drv NRF52 Api_close) (\<lambda>_.
     return_io ()))))) t"
  by (simp add: recover_def NRF5x_init_def NRF5x_setup_def connect_to_emu_invoke
        try_except_def raise_io_def)

text \<open>
  C3. \<open>recover\<close> calls \<open>nrf._setup(args)\<close>, and \<open>_setup\<close> takes no argument: the
  call raises before it reaches the driver, and the handler runs. On a driver that returns
  from every call, the calls of \<open>recover\<close> are those of the fallback alone; Family-A is
  never opened and the version is never queried, so the primary path of the claim does not
  run.
\<close>

theorem recover_primary_path_never_runs:
  "recover (scripted []) no_args [] =
     (Inr (),
      [Call NRF52 Api_open, Call NRF52 (Api_connect_to_emu_without_snr None),
       Call NRF52 Api_recover, Call NRF52 Api_disconnect_from_emu, Call NRF52 Api_close])"
  by (simp add: recover_is_fallback no_args_def emu_call_def truthy_def bind_io_def invoke_def
        scripted_def return_io_def)

section \<open>Release of the session\<close>

lemma emu_call_not_session: "\<not> is_session_call (Call a (emu_call self))"
  by (simp add: emu_call_def)

lemma session_calls_append: "session_calls (t @ u) = session_calls t @ session_calls u"
  by (simp add: session_calls_def)

lemma session_calls_single:
  "session_calls [Call a m] = (if is_session_call (Call a m) then [Call a m] else [])"
  by (simp add: session_calls_def)

lemma retry_sessions:
  "(fst (setup_retry_io drv self t) = Inr NRF52 \<and>
      session_calls (snd (setup_retry_io drv self t)) =
        session_calls t @ [Call NRF51 Api_close, Call NRF52 Api_open]) \<or>
   (isl (fst (setup_retry_io drv self t)) \<and>
      (session_calls (snd (setup_retry_io drv self t)) = session_calls t @ [Call NRF51 Api_close] \<or>
       session_calls (snd (setup_retry_io drv self t)) =
         session_calls t @ [Call NRF51 Api_close, Call NRF52 Api_open]))"
  using emu_call_not_session [of NRF52 self]
  by (simp add: setup_retry_io_def connect_to_emu_invoke bind_invoke return_io_def
        session_calls_def split: response.splits)

lemma setup_unfold:
  "NRF5x_setup drv self [] =
     bind_io (invoke drv NRF51 Api_open) (\<lambda>_.
     bind_io (invoke drv NRF51 (emu_call self)) (\<lambda>_.
     bind_io
       (try_except
          (bind_io (invoke drv NRF51 Api_read_device_version) (\<lambda>_. return_io NRF51))
          (\<lambda>e. if e = APIError WRONG_FAMILY_FOR_DEVICE then setup_retry_io drv self
               else raise_io e))
       (\<lambda>a. bind_io (invoke drv a Api_connect_to_device) (\<lambda>_. return_io a))))"
proof -
  have "(\<lambda>e. case e of
             APIError err_code \<Rightarrow>
               if err_code = WRONG_FAMILY_FOR_DEVICE then
                 bind_io (invoke drv NRF51 Api_close) (\<lambda>_.
                 bind_io (invoke drv NRF52 Api_open) (\<lambda>_.
                 bind_io (NRF5x_connect_to_emu drv self NRF52) (\<lambda>_.
                 return_io NRF52)))
               else raise_io e
           | _ \<Rightarrow> raise_io e) =
        (\<lambda>e. if e = APIError WRONG_FAMILY_FOR_DEVICE then setup_retry_io drv self
             else raise_io e)"
    by (rule ext) (simp add: setup_retry_io_def split: py_exception.splits)
  then show ?thesis
    by (simp add: NRF5x_setup_def connect_to_emu_invoke)
qed

text \<open>
  What a run of \<open>_setup\<close> adds of session calls: on return, the calls that open the
  family it returns; on an exception, a part of the calls that open one of the families.
\<close>

lemma setup_sessions:
  "\<exists>f p. session_calls (snd (NRF5x_setup drv self [] t)) = session_calls t @ p \<and>
         prefix p (opened f) \<and> p \<noteq> [] \<and>
         (\<forall>g. fst (NRF5x_setup drv self [] t) = Inr g \<longrightarrow> g = f \<and> p = opened f)"
proof -
  let ?o = "Call NRF51 Api_open" and ?c = "Call NRF51 (emu_call self)"
  let ?v = "Call NRF51 Api_read_device_version"
  let ?t = "t @ [?o, ?c, ?v]"
  define K :: "DeviceFamily \<Rightarrow> DeviceFamily io"
    where "K = (\<lambda>a. bind_io (invoke drv a Api_connect_to_device) (\<lambda>_. return_io a))"
  define H :: "py_exception \<Rightarrow> DeviceFamily io"
    where "H = (\<lambda>e. if e = APIError WRONG_FAMILY_FOR_DEVICE then setup_retry_io drv self
                    else raise_io e)"
  define T :: "DeviceFamily io"
    where "T = try_except
                 (bind_io (invoke drv NRF51 Api_read_device_version) (\<lambda>_. return_io NRF51)) H"
  have unfold: "NRF5x_setup drv self [] =
      bind_io (invoke drv NRF51 Api_open) (\<lambda>_.
      bind_io (invoke drv NRF51 (emu_call self)) (\<lambda>_. bind_io T K))"
    by (simp add: setup_unfold K_def H_def T_def)
  have K: "session_calls (snd (K a u)) = session_calls u" for a u
    by (simp add: K_def session_calls_def bind_invoke return_io_def split: response.splits)
  have nc: "\<not> is_session_call ?c" by (rule emu_call_not_session)
  have st: "session_calls ?t = session_calls t @ [?o]"
    using nc by (simp add: session_calls_def)
  show ?thesis
  proof (cases "drv t ?o")
    case (Raises e)
    then have "NRF5x_setup drv self [] t = (Inl e, t @ [?o])"
      by (simp add: unfold bind_invoke)
    then show ?thesis
      by (intro exI [of _ NRF51] exI [of _ "[?o]"]) (simp add: session_calls_def)
  next
    case o: (Returns v1)
    show ?thesis
    proof (cases "drv (t @ [?o]) ?c")
      case (Raises e)
      with o have "NRF5x_setup drv self [] t = (Inl e, t @ [?o, ?c])"
        by (simp add: unfold bind_invoke)
      with nc show ?thesis
        by (intro exI [of _ NRF51] exI [of _ "[?o]"]) (simp add: session_calls_def)
    next
      case c: (Returns v2)
      with o have head: "NRF5x_setup drv self [] t = bind_io T K (t @ [?o, ?c])"
        by (simp add: unfold bind_invoke)
      show ?thesis
      proof (cases "drv (t @ [?o, ?c]) ?v")
        case (Returns v3)
        then have "T (t @ [?o, ?c]) = (Inr NRF51, ?t)"
          by (simp add: T_def try_invoke)
        then have run: "NRF5x_setup drv self [] t = K NRF51 ?t"
          by (simp add: head bind_Inr)
        have "fst (K NRF51 ?t) = Inr g \<Longrightarrow> g = NRF51" for g
          by (simp add: K_def bind_invoke return_io_def split: response.splits)
        with K [of NRF51 ?t] st run show ?thesis
          by (intro exI [of _ NRF51] exI [of _ "[?o]"]) auto
      next
        case (Raises e)
        then have T: "T (t @ [?o, ?c]) = H e ?t"
          by (simp add: T_def try_invoke)
        show ?thesis
        proof (cases "e = APIError WRONG_FAMILY_FOR_DEVICE")
          case False
          with T have "NRF5x_setup drv self [] t = (Inl e, ?t)"
            by (simp add: head H_def raise_io_def bind_Inl)
          with st show ?thesis
            by (intro exI [of _ NRF51] exI [of _ "[?o]"]) simp
        next
          case True
          with T have run: "NRF5x_setup drv self [] t = bind_io (setup_retry_io drv self) K ?t"
            by (simp add: head H_def bind_io_def)
          from retry_sessions [of drv self ?t] show ?thesis
          proof (elim disjE conjE)
            assume r: "fst (setup_retry_io drv self ?t) = Inr NRF52"
              and s: "session_calls (snd (setup_retry_io drv self ?t)) =
                        session_calls ?t @ [Call NRF51 Api_close, Call NRF52 Api_open]"
            obtain t' where t': "setup_retry_io drv self ?t = (Inr NRF52, t')"
              using r by (cases "setup_retry_io drv self ?t") simp
            with s st have s': "session_calls t' = session_calls t @ opened NRF52"
              by simp
            from run t' have run': "NRF5x_setup drv self [] t = K NRF52 t'"
              by (simp add: bind_Inr)
            have "fst (K NRF52 t') = Inr g \<Longrightarrow> g = NRF52" for g
              by (simp add: K_def bind_invoke return_io_def split: response.splits)
            with K [of NRF52 t'] s' run' show ?thesis
              by (intro exI [of _ NRF52] exI [of _ "opened NRF52"]) auto
          next
            assume r: "isl (fst (setup_retry_io drv self ?t))"
              and s: "session_calls (snd (setup_retry_io drv self ?t)) =
                        session_calls ?t @ [Call NRF51 Api_close]"
            obtain e' t' where t': "setup_retry_io drv self ?t = (Inl e', t')"
              using r by (cases "setup_retry_io drv self ?t") (auto simp: isl_def)
            with run have "NRF5x_setup drv self [] t = (Inl e', t')"
              by (simp add: bind_Inl)
            with s st t' show ?thesis
              by (intro exI [of _ NRF52] exI [of _ "take 2 (opened NRF52)"]) simp
          next
            assume r: "isl (fst (setup_retry_io drv self ?t))"
              and s: "session_calls (snd (setup_retry_io drv self ?t)) =
                        session_calls ?t @ [Call NRF51 Api_close, Call NRF52 Api_open]"
            obtain e' t' where t': "setup_retry_io drv self ?t = (Inl e', t')"
              using r by (cases "setup_retry_io drv self ?t") (auto simp: isl_def)
            with run have "NRF5x_setup drv self [] t = (Inl e', t')"
              by (simp add: bind_Inl)
            with s st t' show ?thesis
              by (intro exI [of _ NRF52] exI [of _ "opened NRF52"]) simp
          qed
        qed
      qed
    qed
  qed
qed

lemma program_segment_keeps_sessions:
  "filter is_session_call (snd (program_segment drv nrf a seg t)) = filter is_session_call t"
  unfolding program_segment_def by (intro keeps_intros) simp_all

lemma verify_segment_keeps_sessions:
  "filter is_session_call (snd (verify_segment drv nrf seg t)) = filter is_session_call t"
  unfolding verify_segment_def by (intro keeps_intros) simp_all

lemma underscore_reset_keeps_sessions:
  "filter is_session_call (snd (underscore_reset drv nrf a d t)) = filter is_session_call t"
  unfolding underscore_reset_def by (intro keeps_intros) simp_all

lemma cleanup_sessions:
  assumes "api nrf = Some f"
  shows "runs_within (session_calls t @ [Call f Api_disconnect_from_emu, Call f Api_close])
           (NRF5x_cleanup drv nrf t)"
  using assms
  by (simp add: runs_within_def NRF5x_cleanup_def nrf_api_Some bind_invoke return_io_def
        session_calls_def split: response.splits)

text \<open>
  A command that sets the session up, runs a body that makes no session call, and cleans
  up.
\<close>

lemma command_sessions:
  assumes body: "\<And>nrf t. filter is_session_call (snd (body nrf t)) = filter is_session_call t"
  shows "\<exists>f. runs_within (released f)
           (bind_io (NRF5x_init drv a False) (\<lambda>nrf.
            bind_io (body nrf) (\<lambda>_. NRF5x_cleanup drv nrf)) [])"
proof -
  define self where "self = \<lparr>clockspeed = arg_clockspeed a, quiet = arg_quiet a,
    snr = arg_snr a, api = None\<rparr>"
  define rest where "rest = (\<lambda>nrf. bind_io (body nrf) (\<lambda>_. NRF5x_cleanup drv nrf))"
  have cmd: "bind_io (NRF5x_init drv a False) rest =
      bind_io (NRF5x_setup drv self []) (\<lambda>g. rest (self\<lparr>api := Some g\<rparr>))"
    by (simp add: NRF5x_init_def self_def bind_assoc)
  obtain f p where p: "session_calls (snd (NRF5x_setup drv self [] [])) = p"
    and pre: "prefix p (opened f)"
    and ret: "\<And>g. fst (NRF5x_setup drv self [] []) = Inr g \<Longrightarrow> g = f \<and> p = opened f"
    using setup_sessions [of drv self "[]"] by (auto simp: session_calls_def)
  have pre': "prefix p (released f)"
    using pre by (simp add: released_def)
  obtain r t1 where s: "NRF5x_setup drv self [] [] = (r, t1)"
    by (cases "NRF5x_setup drv self [] []")
  have "runs_within (released f) (bind_io (NRF5x_init drv a False) rest [])"
  proof (cases r)
    case (Inl e)
    with s have "bind_io (NRF5x_init drv a False) rest [] = (Inl e, t1)"
      by (simp add: cmd bind_Inl)
    with p s pre' show ?thesis by (simp add: runs_within_def)
  next
    case (Inr g)
    with ret s have g: "g = f" and t1: "session_calls t1 = opened f"
      using p by auto
    define nrf where "nrf = self\<lparr>api := Some f\<rparr>"
    have api: "api nrf = Some f" by (simp add: nrf_def)
    from s Inr g have "bind_io (NRF5x_init drv a False) rest [] = rest nrf t1"
      by (simp add: cmd bind_Inr nrf_def)
    then have run: "bind_io (NRF5x_init drv a False) rest [] =
        bind_io (body nrf) (\<lambda>_. NRF5x_cleanup drv nrf) t1"
      by (simp only: rest_def)
    obtain rb t2 where b: "body nrf t1 = (rb, t2)" by (cases "body nrf t1")
    with body [of nrf t1] t1 have t2: "session_calls t2 = opened f"
      by (simp add: session_calls_def)
    show ?thesis
    proof (cases rb)
      case (Inl e)
      with b run have "bind_io (NRF5x_init drv a False) rest [] = (Inl e, t2)"
        by (simp add: bind_Inl)
      with t2 show ?thesis by (simp add: runs_within_def released_def)
    next
      case (Inr u)
      with b run have "bind_io (NRF5x_init drv a False) rest [] = NRF5x_cleanup drv nrf t2"
        by (simp add: bind_Inr)
      with cleanup_sessions [OF api, of t2 drv] t2 show ?thesis
        by (simp add: released_def)
    qed
  qed
  then show ?thesis by (auto simp: rest_def)
qed

lemma program_shape:
  "program drv a segs =
     bind_io (NRF5x_init drv a False) (\<lambda>nrf.
     bind_io
       (bind_io
          (if eraseall a then bind_io (nrf_api drv nrf Api_erase_all) (\<lambda>_. return_io ())
           else if sectorserase a then py_assert False ''Not implemented in nrf5x.py yet.''
           else if sectorsanduicrerase a then py_assert False ''Not implemented in nrf5x.py yet.''
           else return_io ())
          (\<lambda>_.
        bind_io (for_each (program_segment drv nrf a) segs) (\<lambda>_.
        bind_io (if verify_flag a then NRF5x_log nrf ''Programming verified.''
                 else return_io ()) (\<lambda>_.
        underscore_reset drv nrf a False))))
       (\<lambda>_. NRF5x_cleanup drv nrf))"
  by (simp add: program_def program_prepare_def bind_assoc)

lemma verify_shape:
  "verify drv a segs =
     bind_io (NRF5x_init drv a False) (\<lambda>nrf.
     bind_io (for_each (verify_segment drv nrf) segs) (\<lambda>_. NRF5x_cleanup drv nrf))"
  by (simp add: verify_def)

lemma reset_shape:
  "reset drv a =
     bind_io (NRF5x_init drv a False) (\<lambda>nrf.
     bind_io (underscore_reset drv nrf a True) (\<lambda>_. NRF5x_cleanup drv nrf))"
  by (simp add: reset_def)

lemma memwr_shape:
  "memwr drv a =
     bind_io (NRF5x_init drv a False) (\<lambda>nrf.
     bind_io
       (if flash a then nrf_api drv nrf (Api_write_u32 (addr a) (val a) True)
        else
          bind_io (py_assert (addr a \<ge> 0x80000) needs_flash_msg) (\<lambda>_.
          nrf_api drv nrf (Api_write_u32 (addr a) (val a) False)))
       (\<lambda>_. NRF5x_cleanup drv nrf))"
  unfolding memwr_def needs_flash_msg_def by simp

lemma program_sessions: "\<exists>f. runs_within (released f) (program drv a segs [])"
  unfolding program_shape
  by (rule command_sessions) (intro keeps_intros filter_snd_log program_segment_keeps_sessions
        underscore_reset_keeps_sessions; simp)

lemma verify_sessions: "\<exists>f. runs_within (released f) (verify drv a segs [])"
  unfolding verify_shape
  by (rule command_sessions) (intro keeps_intros verify_segment_keeps_sessions)

lemma reset_sessions: "\<exists>f. runs_within (released f) (reset drv a [])"
  unfolding reset_shape
  by (rule command_sessions) (rule underscore_reset_keeps_sessions)

lemma memwr_sessions: "\<exists>f. runs_within (released f) (memwr drv a [])"
  unfolding memwr_shape
  by (rule command_sessions) (intro keeps_intros; simp)

lemma recover_sessions: "runs_within direct52 (recover drv a [])"
proof -
  have "\<not> is_session_call (Call NRF52 (emu_call self))" for self
    by (rule emu_call_not_session)
  then show ?thesis
    by (simp add: recover_is_fallback runs_within_def direct52_def bind_invoke return_io_def
          session_calls_def split: response.splits)
qed

lemma setup_sessions_from_start:
  "\<exists>f. prefix (session_calls (snd (NRF5x_setup drv self [] []))) (opened f) \<and>
        (\<forall>g. fst (NRF5x_setup drv self [] []) = Inr g \<longrightarrow>
           g = f \<and> session_calls (snd (NRF5x_setup drv self [] [])) = opened f)"
  using setup_sessions [of drv self "[]"] by (auto simp: session_calls_def)

text \<open>
  C2, as amended. A run of \<open>_setup\<close> that returns has opened the session it returns and
  closed every other one it opened, so exactly one session is open. A run of \<open>program\<close>,
  \<open>verify\<close>, \<open>reset\<close>, \<open>memwr\<close> or \<open>recover\<close> that returns has made the
  disconnect and the close of \<open>cleanup\<close> exactly once, as its last session calls, and
  has closed every session it opened exactly once. On every run, returning or not, the
  session calls are an initial part of such a sequence: no handle is closed twice or before
  it is opened. Nothing is said of a run that ends with an exception beyond that: the code
  has no release on that path.
\<close>

theorem sessions_released_once_on_return:
  "(\<exists>f. prefix (session_calls (snd (NRF5x_setup drv self [] []))) (opened f) \<and>
        (\<forall>g. fst (NRF5x_setup drv self [] []) = Inr g \<longrightarrow>
           g = f \<and> session_calls (snd (NRF5x_setup drv self [] [])) = opened f)) \<and>
   (\<exists>f. runs_within (released f) (program drv a segs [])) \<and>
   (\<exists>f. runs_within (released f) (verify drv a segs [])) \<and>
   (\<exists>f. runs_within (released f) (reset drv a [])) \<and>
   (\<exists>f. runs_within (released f) (memwr drv a [])) \<and>
   runs_within direct52 (recover drv a [])"
  by (intro conjI setup_sessions_from_start program_sessions verify_sessions reset_sessions
        memwr_sessions recover_sessions)

text \<open>
  A run of \<open>program\<close> that returns.
\<close>

theorem sessions_released_once_on_return_witness:
  "fst (program (scripted [Returns [], Returns [], Returns [5, 1], Returns [],
                           Returns [255, 255]]) no_args [seg1] []) = Inr () \<and>
   (\<exists>f. session_calls
          (snd (program (scripted [Returns [], Returns [], Returns [5, 1], Returns [],
                                   Returns [255, 255]]) no_args [seg1] [])) = released f)"
proof -
  let ?r = "program (scripted [Returns [], Returns [], Returns [5, 1], Returns [],
                               Returns [255, 255]]) no_args [seg1] []"
  have ret: "fst ?r = Inr ()"
    by (simp add: run_defs numeral_2_eq_2)
  from sessions_released_once_on_return
         [of "scripted [Returns [], Returns [], Returns [5, 1], Returns [], Returns [255, 255]]"
             plain_nrf no_args "[seg1]"]
  have "\<exists>f. runs_within (released f) ?r"
    by simp
  with ret show ?thesis
    by (auto simp: runs_within_def)
qed

text \<open>
  C2 as the specification states it fails: \<open>program\<close> on a segment that does not read
  erased ends with the assertion error, and the session it opened is neither disconnected
  nor closed.
\<close>

theorem program_failure_leaves_session_open:
  "fst (program (scripted [Returns [], Returns [], Returns [5, 1], Returns [], Returns [255, 0]])
          no_args [seg1] []) = Inl (AssertionError not_erased_msg) \<and>
   session_calls
     (snd (program (scripted [Returns [], Returns [], Returns [5, 1], Returns [], Returns [255, 0]])
             no_args [seg1] [])) = [Call NRF51 Api_open] \<and>
   [Call NRF51 Api_open] \<noteq> released NRF51 \<and> [Call NRF51 Api_open] \<noteq> released NRF52"
  by (simp add: run_defs not_erased_msg_def session_calls_def released_def numeral_2_eq_2)

end
